theory Spec2Isabelle
  imports Main
begin

section \<open>The job store of webgui/database.py\<close>

text \<open>
  The store is an SQLite database with two tables, \<open>jobs\<close> and \<open>episodes\<close>. Every method
  of \<open>Database\<close> opens its own connection, executes its statements and commits. A table
  is modelled as the list of its rows, an \<open>UPDATE ... WHERE\<close> as a map over the rows, a
  \<open>DELETE ... WHERE\<close> as a filter, \<open>cursor.rowcount\<close> as the number of rows the statement
  touched. Each method takes the store and returns its Python result (or the exception
  it raises) together with the store it leaves behind. The calls of
  \<open>datetime.utcnow().isoformat()\<close> are arguments: one timestamp per call in the source.
\<close>

subsection \<open>Values, rows and the store\<close>

text \<open>
  The values a column holds. \<open>update_job\<close> binds whatever its keyword arguments carry, so
  the columns of a job hold values of any storage class. The model stores a bound value
  as it is given and takes it to be one SQLite can bind; the conversion SQLite applies
  to fit a value to the declared type of its column is left out, and no property below
  depends on it.
\<close>

datatype sqlval = NULL | INTEGER int | TEXT string

text \<open>\<open>class JobStatus(str, Enum)\<close>, \<open>JobStage\<close> and \<open>EpisodeStatus\<close>: the \<open>.value\<close> strings.\<close>

definition JobStatus_QUEUED :: string where "JobStatus_QUEUED = ''queued''"
definition JobStatus_RUNNING :: string where "JobStatus_RUNNING = ''running''"
definition JobStatus_SUCCESS :: string where "JobStatus_SUCCESS = ''success''"
definition JobStatus_FAILED :: string where "JobStatus_FAILED = ''failed''"
definition JobStatus_CANCELED :: string where "JobStatus_CANCELED = ''canceled''"

definition JobStage_INIT :: string where "JobStage_INIT = ''init''"
definition JobStage_DONE :: string where "JobStage_DONE = ''done''"

definition STAGE_PROGRESS_INIT :: int where "STAGE_PROGRESS_INIT = 5"

definition EpisodeStatus_PENDING :: string where "EpisodeStatus_PENDING = ''pending''"
definition EpisodeStatus_GET_STREAM :: string where "EpisodeStatus_GET_STREAM = ''get_stream''"
definition EpisodeStatus_DOWNLOAD_VIDEO :: string where
  "EpisodeStatus_DOWNLOAD_VIDEO = ''download_video''"
definition EpisodeStatus_MERGE_VIDEO :: string where
  "EpisodeStatus_MERGE_VIDEO = ''merge_video''"
definition EpisodeStatus_DOWNLOAD_SUBTITLES :: string where
  "EpisodeStatus_DOWNLOAD_SUBTITLES = ''download_subtitles''"
definition EpisodeStatus_COMPLETE :: string where "EpisodeStatus_COMPLETE = ''complete''"
definition EpisodeStatus_FAILED :: string where "EpisodeStatus_FAILED = ''failed''"

text \<open>A row of \<open>jobs\<close>: the columns of \<open>CREATE TABLE jobs\<close>, \<open>id\<close> as \<open>job_id\<close>.\<close>

record job =
  job_id :: int
  url :: sqlval
  profile :: sqlval
  extra_args :: sqlval
  status :: sqlval
  stage :: sqlval
  progress_percent :: sqlval
  progress_text :: sqlval
  created_at :: sqlval
  started_at :: sqlval
  finished_at :: sqlval
  error_message :: sqlval
  log_file :: sqlval
  pid :: sqlval

text \<open>
  A row of \<open>episodes\<close>. Its columns are written only by \<open>create_episode\<close>,
  \<open>update_episode\<close> and \<open>cancel_job_episodes\<close>, whose arguments are typed, so each
  column carries the type of the argument that fills it; a nullable column is an option.
\<close>

record episode =
  e_id :: int
  e_job_id :: int
  e_episode_number :: int
  e_title :: string
  e_status :: string
  e_progress_percent :: "int option"
  e_stage_data :: "string option"
  e_error_message :: "string option"
  e_started_at :: "string option"
  e_finished_at :: "string option"
  e_log_file :: "string option"

text \<open>
  The database: both tables and, for the two \<open>AUTOINCREMENT\<close> keys, the largest row id
  ever handed out (SQLite's \<open>sqlite_sequence\<close>).
\<close>

record store =
  jobs :: "job list"
  episodes :: "episode list"
  jobs_seq :: int
  episodes_seq :: int

datatype error = ValueError "string list" | IntegrityError

text \<open>
  A connection. SQLite enforces foreign keys on a connection only after
  \<open>PRAGMA foreign_keys = ON\<close>; a new connection has it off. No method of \<open>Database\<close>
  issues that pragma (\<open>init_db\<close> sets \<open>journal_mode\<close> and \<open>busy_timeout\<close> only), so every
  connection the source opens runs with the default.
\<close>

record connection =
  foreign_keys :: bool

definition aiosqlite_connect :: connection where
  "aiosqlite_connect = \<lparr>foreign_keys = False\<rparr>"

subsection \<open>SQL statements\<close>

text \<open>SQL comparison of a column with a text parameter: a \<open>NULL\<close> column satisfies neither.\<close>

definition sql_eq :: "sqlval \<Rightarrow> string \<Rightarrow> bool" where
  "sql_eq v t = (v = TEXT t)"

definition sql_ne :: "sqlval \<Rightarrow> string \<Rightarrow> bool" where
  "sql_ne v t = (v \<noteq> NULL \<and> v \<noteq> TEXT t)"

text \<open>The next \<open>AUTOINCREMENT\<close> key: one more than every key in the table or ever used.\<close>

definition next_rowid :: "int \<Rightarrow> int list \<Rightarrow> int" where
  "next_rowid seq ids = fold max ids seq + 1"

text \<open>\<open>SET key = ?\<close> on a row of \<open>jobs\<close>.\<close>

definition set_col :: "string \<Rightarrow> sqlval \<Rightarrow> job \<Rightarrow> job" where
  "set_col key v j =
    (if key = ''url'' then j\<lparr>url := v\<rparr>
     else if key = ''profile'' then j\<lparr>profile := v\<rparr>
     else if key = ''extra_args'' then j\<lparr>extra_args := v\<rparr>
     else if key = ''status'' then j\<lparr>status := v\<rparr>
     else if key = ''stage'' then j\<lparr>stage := v\<rparr>
     else if key = ''progress_percent'' then j\<lparr>progress_percent := v\<rparr>
     else if key = ''progress_text'' then j\<lparr>progress_text := v\<rparr>
     else if key = ''created_at'' then j\<lparr>created_at := v\<rparr>
     else if key = ''started_at'' then j\<lparr>started_at := v\<rparr>
     else if key = ''finished_at'' then j\<lparr>finished_at := v\<rparr>
     else if key = ''error_message'' then j\<lparr>error_message := v\<rparr>
     else if key = ''log_file'' then j\<lparr>log_file := v\<rparr>
     else if key = ''pid'' then j\<lparr>pid := v\<rparr>
     else j)"

text \<open>Applying the assignments of one \<open>SET\<close> clause, in the order of the dictionary.\<close>

fun set_cols :: "(string \<times> sqlval) list \<Rightarrow> job \<Rightarrow> job" where
  "set_cols [] j = j"
| "set_cols ((key, v) # kvs) j = set_cols kvs (set_col key v j)"

text \<open>The columns of \<open>jobs\<close> declared \<open>NOT NULL\<close> that an update can name.\<close>

definition NOT_NULL_COLUMNS :: "string list" where
  "NOT_NULL_COLUMNS = [''url'', ''status'', ''created_at'']"

text \<open>
  \<open>UPDATE jobs SET ... WHERE id = ?\<close>. Writing \<open>NULL\<close> into a \<open>NOT NULL\<close> column of a
  row that matches fails the statement with an integrity error, and nothing is written.
\<close>

definition sql_update_jobs :: "int \<Rightarrow> (string \<times> sqlval) list \<Rightarrow> store \<Rightarrow> (error + unit) \<times> store" where
  "sql_update_jobs jid kvs s =
    (if (\<exists>j \<in> set (jobs s). job_id j = jid) \<and>
        (\<exists>kv \<in> set kvs. fst kv \<in> set NOT_NULL_COLUMNS \<and> snd kv = NULL)
     then (Inl IntegrityError, s)
     else (Inr (), s\<lparr>jobs := map (\<lambda>j. if job_id j = jid then set_cols kvs j else j) (jobs s)\<rparr>))"

subsection \<open>Job methods\<close>

definition VALID_COLUMNS :: "string list" where
  "VALID_COLUMNS = [''url'', ''profile'', ''extra_args'', ''status'', ''stage'',
     ''progress_percent'', ''progress_text'', ''created_at'',
     ''started_at'', ''finished_at'', ''error_message'', ''log_file'', ''pid'']"

text \<open>\<open>create_job(url, profile, extra_args)\<close>; \<open>None\<close> binds as \<open>NULL\<close>.\<close>

definition opt_text :: "string option \<Rightarrow> sqlval" where
  "opt_text x = (case x of None \<Rightarrow> NULL | Some t \<Rightarrow> TEXT t)"

definition create_job :: "string \<Rightarrow> string \<Rightarrow> string option \<Rightarrow> string option \<Rightarrow> store \<Rightarrow> (error + int) \<times> store" where
  "create_job now u prof extra s =
    (let lastrowid = next_rowid (jobs_seq s) (map job_id (jobs s)) in
     (Inr lastrowid,
      s\<lparr>jobs := jobs s @
           [\<lparr>job_id = lastrowid, url = TEXT u, profile = opt_text prof,
             extra_args = opt_text extra, status = TEXT JobStatus_QUEUED, stage = NULL,
             progress_percent = INTEGER 0, progress_text = NULL, created_at = TEXT now,
             started_at = NULL, finished_at = NULL, error_message = NULL,
             log_file = NULL, pid = NULL\<rparr>],
        jobs_seq := lastrowid\<rparr>))"

definition get_job :: "int \<Rightarrow> store \<Rightarrow> job option" where
  "get_job jid s = find (\<lambda>j. job_id j = jid) (jobs s)"

text \<open>
  \<open>update_job(job_id, **kwargs)\<close>: the keyword arguments are a dictionary, here the list
  of its items in order.
\<close>

definition update_job :: "int \<Rightarrow> (string \<times> sqlval) list \<Rightarrow> store \<Rightarrow> (error + unit) \<times> store" where
  "update_job jid kwargs s =
    (if kwargs = [] then (Inr (), s)
     else
       let invalid_columns = filter (\<lambda>k. k \<notin> set VALID_COLUMNS) (map fst kwargs) in
       if invalid_columns \<noteq> [] then (Inl (ValueError invalid_columns), s)
       else sql_update_jobs jid kwargs s)"

text \<open>\<open>update_progress\<close>: \<open>if stage:\<close> and \<open>if text:\<close> skip \<open>None\<close> and the empty string.\<close>

definition truthy :: "string option \<Rightarrow> bool" where
  "truthy x = (case x of None \<Rightarrow> False | Some t \<Rightarrow> t \<noteq> [])"

definition update_progress :: "int \<Rightarrow> int \<Rightarrow> string option \<Rightarrow> string option \<Rightarrow> store \<Rightarrow> (error + unit) \<times> store" where
  "update_progress jid percent stg txt s =
    (let updates = [(''progress_percent'', INTEGER percent)];
         updates = (if truthy stg then updates @ [(''stage'', opt_text stg)] else updates);
         updates = (if truthy txt then updates @ [(''progress_text'', opt_text txt)] else updates)
     in update_job jid updates s)"

text \<open>
  \<open>claim_job\<close>: one statement,
  \<open>UPDATE jobs SET status = running, started_at = now WHERE id = ? AND status = queued\<close>;
  the result is \<open>cursor.rowcount > 0\<close>.
\<close>

definition claim_job :: "string \<Rightarrow> int \<Rightarrow> store \<Rightarrow> (error + bool) \<times> store" where
  "claim_job now jid s =
    (let hit = (\<lambda>j. job_id j = jid \<and> sql_eq (status j) JobStatus_QUEUED);
         rowcount = length (filter hit (jobs s))
     in (Inr (rowcount > 0),
         s\<lparr>jobs := map (\<lambda>j. if hit j then j\<lparr>status := TEXT JobStatus_RUNNING, started_at := TEXT now\<rparr>
                              else j) (jobs s)\<rparr>))"

definition start_job :: "int \<Rightarrow> int \<Rightarrow> string \<Rightarrow> store \<Rightarrow> (error + unit) \<times> store" where
  "start_job jid p lf s =
    update_job jid [(''pid'', INTEGER p), (''log_file'', TEXT lf),
                    (''stage'', TEXT JobStage_INIT),
                    (''progress_percent'', INTEGER STAGE_PROGRESS_INIT)] s"

subsection \<open>Episode methods\<close>

text \<open>
  \<open>INSERT INTO episodes\<close>. With foreign keys enforced, a \<open>job_id\<close> that names no job
  fails the insertion.
\<close>

definition create_episode :: "int \<Rightarrow> int \<Rightarrow> string \<Rightarrow> store \<Rightarrow> (error + int) \<times> store" where
  "create_episode jid number title s =
    (let db = aiosqlite_connect in
     if foreign_keys db \<and> \<not> (\<exists>j \<in> set (jobs s). job_id j = jid) then (Inl IntegrityError, s)
     else
       let lastrowid = next_rowid (episodes_seq s) (map e_id (episodes s)) in
       (Inr lastrowid,
        s\<lparr>episodes := episodes s @
             [\<lparr>e_id = lastrowid, e_job_id = jid, e_episode_number = number, e_title = title,
               e_status = EpisodeStatus_PENDING, e_progress_percent = Some 0,
               e_stage_data = None, e_error_message = None, e_started_at = None,
               e_finished_at = None, e_log_file = None\<rparr>],
          episodes_seq := lastrowid\<rparr>))"


text \<open>
  The dictionary \<open>updates\<close> of \<open>update_episode\<close>. Its keys are among seven column names,
  so it is a record of optional values: \<open>None\<close> for a key that is absent.
\<close>

record ep_updates =
  u_status :: "string option"
  u_finished_at :: "string option"
  u_progress_percent :: "int option"
  u_started_at :: "string option"
  u_error_message :: "string option"
  u_stage_data :: "string option"
  u_log_file :: "string option"

definition no_updates :: ep_updates where
  "no_updates = \<lparr>u_status = None, u_finished_at = None, u_progress_percent = None,
     u_started_at = None, u_error_message = None, u_stage_data = None, u_log_file = None\<rparr>"

text \<open>\<open>UPDATE episodes SET ...\<close> on one row: the keys present are assigned.\<close>

definition apply_updates :: "ep_updates \<Rightarrow> episode \<Rightarrow> episode" where
  "apply_updates u e =
    e\<lparr>e_status := (case u_status u of None \<Rightarrow> e_status e | Some v \<Rightarrow> v),
      e_finished_at := (case u_finished_at u of None \<Rightarrow> e_finished_at e | Some v \<Rightarrow> Some v),
      e_progress_percent :=
        (case u_progress_percent u of None \<Rightarrow> e_progress_percent e | Some v \<Rightarrow> Some v),
      e_started_at := (case u_started_at u of None \<Rightarrow> e_started_at e | Some v \<Rightarrow> Some v),
      e_error_message :=
        (case u_error_message u of None \<Rightarrow> e_error_message e | Some v \<Rightarrow> Some v),
      e_stage_data := (case u_stage_data u of None \<Rightarrow> e_stage_data e | Some v \<Rightarrow> Some v),
      e_log_file := (case u_log_file u of None \<Rightarrow> e_log_file e | Some v \<Rightarrow> Some v)\<rparr>"

text \<open>
  The status branch of \<open>update_episode\<close>. \<open>updates.get("started_at")\<close> reads the
  dictionary being built, which holds the key \<open>status\<close> only at that point.
\<close>

definition status_updates :: "string \<Rightarrow> string \<Rightarrow> ep_updates \<Rightarrow> ep_updates" where
  "status_updates now v updates =
    (let updates = updates\<lparr>u_status := Some v\<rparr> in
     if v = EpisodeStatus_COMPLETE
     then updates\<lparr>u_finished_at := Some now, u_progress_percent := Some 100\<rparr>
     else if v \<in> set [EpisodeStatus_GET_STREAM, EpisodeStatus_DOWNLOAD_VIDEO,
                      EpisodeStatus_MERGE_VIDEO, EpisodeStatus_DOWNLOAD_SUBTITLES]
     then (if \<not> truthy (u_started_at updates) then updates\<lparr>u_started_at := Some now\<rparr>
           else updates)
     else if v = EpisodeStatus_FAILED then updates\<lparr>u_finished_at := Some now\<rparr>
     else updates)"

text \<open>
  \<open>update_episode\<close>. \<open>json.dumps\<close> is the standard library's; it is the parameter
  \<open>json_dumps\<close>, from the type of the \<open>stage_data\<close> argument to text.
\<close>

definition update_episode ::
  "('m \<Rightarrow> string) \<Rightarrow> string \<Rightarrow> int \<Rightarrow> string option \<Rightarrow> int option \<Rightarrow> string option \<Rightarrow>
   'm option \<Rightarrow> string option \<Rightarrow> store \<Rightarrow> (error + unit) \<times> store" where
  "update_episode json_dumps now eid st percent msg stage_data lf s =
    (let updates = no_updates;
         updates = (case st of None \<Rightarrow> updates | Some v \<Rightarrow> status_updates now v updates);
         updates = (case percent of None \<Rightarrow> updates
                    | Some p \<Rightarrow> updates\<lparr>u_progress_percent := Some p\<rparr>);
         updates = (case msg of None \<Rightarrow> updates | Some m \<Rightarrow> updates\<lparr>u_error_message := Some m\<rparr>);
         updates = (case stage_data of None \<Rightarrow> updates
                    | Some d \<Rightarrow> updates\<lparr>u_stage_data := Some (json_dumps d)\<rparr>);
         updates = (case lf of None \<Rightarrow> updates | Some f \<Rightarrow> updates\<lparr>u_log_file := Some f\<rparr>)
     in if updates = no_updates then (Inr (), s)
        else (Inr (),
              s\<lparr>episodes := map (\<lambda>e. if e_id e = eid then apply_updates updates e else e)
                                (episodes s)\<rparr>))"

text \<open>
  The dictionary \<open>update_episode\<close> has built when it reaches its statement, key by key
  (\<open>update_episode_built\<close> below proves that the method builds exactly this).
\<close>

definition built_updates ::
  "('m \<Rightarrow> string) \<Rightarrow> string \<Rightarrow> string option \<Rightarrow> int option \<Rightarrow> string option \<Rightarrow>
   'm option \<Rightarrow> string option \<Rightarrow> ep_updates" where
  "built_updates json_dumps now st percent msg stage_data lf =
     \<lparr>u_status = st,
      u_finished_at =
        (if st = Some EpisodeStatus_COMPLETE \<or> st = Some EpisodeStatus_FAILED
         then Some now else None),
      u_progress_percent =
        (case percent of Some p \<Rightarrow> Some p
         | None \<Rightarrow> if st = Some EpisodeStatus_COMPLETE then Some 100 else None),
      u_started_at =
        (if st \<in> Some ` set [EpisodeStatus_GET_STREAM, EpisodeStatus_DOWNLOAD_VIDEO,
                               EpisodeStatus_MERGE_VIDEO, EpisodeStatus_DOWNLOAD_SUBTITLES]
         then Some now else None),
      u_error_message = msg,
      u_stage_data = map_option json_dumps stage_data,
      u_log_file = lf\<rparr>"

text \<open>
  \<open>cancel_job_episodes\<close>:
  \<open>UPDATE episodes SET status, error_message, finished_at
     WHERE job_id = ? AND status NOT IN (complete, failed)\<close>.
\<close>

definition cancel_job_episodes :: "string \<Rightarrow> int \<Rightarrow> store \<Rightarrow> (error + unit) \<times> store" where
  "cancel_job_episodes now jid s =
    (Inr (),
     s\<lparr>episodes :=
         map (\<lambda>e. if e_job_id e = jid \<and>
                     e_status e \<notin> set [EpisodeStatus_COMPLETE, EpisodeStatus_FAILED]
                  then e\<lparr>e_status := EpisodeStatus_FAILED,
                         e_error_message := Some ''Job was cancelled'',
                         e_finished_at := Some now\<rparr>
                  else e) (episodes s)\<rparr>)"

subsection \<open>Finishing, cancelling and purging jobs\<close>

text \<open>
  \<open>finish_job\<close> passes all five keywords to \<open>update_job\<close> whatever \<open>success\<close> is; on
  failure two of them carry \<open>None\<close>. The cascade is a second call with its own
  timestamp \<open>now'\<close>.
\<close>

definition finish_job :: "string \<Rightarrow> string \<Rightarrow> int \<Rightarrow> bool \<Rightarrow> string option \<Rightarrow> store \<Rightarrow> (error + unit) \<times> store" where
  "finish_job now now' jid success msg s =
    (case update_job jid
            [(''status'', TEXT (if success then JobStatus_SUCCESS else JobStatus_FAILED)),
             (''finished_at'', TEXT now),
             (''error_message'', opt_text msg),
             (''progress_percent'', if success then INTEGER 100 else NULL),
             (''stage'', if success then TEXT JobStage_DONE else NULL)] s of
       (Inl e, s1) \<Rightarrow> (Inl e, s1)
     | (Inr _, s1) \<Rightarrow> if \<not> success then cancel_job_episodes now' jid s1 else (Inr (), s1))"

definition cancel_job :: "string \<Rightarrow> string \<Rightarrow> int \<Rightarrow> store \<Rightarrow> (error + unit) \<times> store" where
  "cancel_job now now' jid s =
    (case update_job jid
            [(''status'', TEXT JobStatus_CANCELED), (''finished_at'', TEXT now)] s of
       (Inl e, s1) \<Rightarrow> (Inl e, s1)
     | (Inr _, s1) \<Rightarrow> cancel_job_episodes now' jid s1)"

text \<open>
  \<open>DELETE FROM jobs WHERE ...\<close> on a connection: the rows that satisfy the condition go,
  \<open>rowcount\<close> counts them. \<open>ON DELETE CASCADE\<close> removes the episodes of a deleted job
  when the connection enforces foreign keys, and only then.
\<close>

definition sql_delete_jobs :: "connection \<Rightarrow> (job \<Rightarrow> bool) \<Rightarrow> store \<Rightarrow> nat \<times> store" where
  "sql_delete_jobs db cond s =
    (let gone = filter cond (jobs s) in
     (length gone,
      s\<lparr>jobs := filter (\<lambda>j. \<not> cond j) (jobs s),
        episodes := (if foreign_keys db
                     then filter (\<lambda>e. e_job_id e \<notin> set (map job_id gone)) (episodes s)
                     else episodes s)\<rparr>))"

definition delete_all_jobs_except_running :: "store \<Rightarrow> (error + nat \<times> nat) \<times> store" where
  "delete_all_jobs_except_running s =
    (let db = aiosqlite_connect;
         skipped_count = length (filter (\<lambda>j. sql_eq (status j) JobStatus_RUNNING) (jobs s));
         (deleted_count, s') = sql_delete_jobs db (\<lambda>j. sql_ne (status j) JobStatus_RUNNING) s
     in (Inr (deleted_count, skipped_count), s'))"

subsection \<open>Sequences of calls\<close>

text \<open>
  The calls a producer, a worker and a cancelling actor make on jobs. A call that raises
  leaves the store as the failed statement left it, and the next call runs on that.
\<close>

datatype op =
    Create string "string option" "string option"
  | Claim int
  | Start int int string
  | UpdateProgress int int "string option" "string option"
  | Update int "(string \<times> sqlval) list"
  | Finish int bool "string option"
  | Cancel int

fun apply_op :: "string \<times> string \<Rightarrow> op \<Rightarrow> store \<Rightarrow> store" where
  "apply_op (now, now') (Create u prof extra) s = snd (create_job now u prof extra s)"
| "apply_op (now, now') (Claim jid) s = snd (claim_job now jid s)"
| "apply_op (now, now') (Start jid p lf) s = snd (start_job jid p lf s)"
| "apply_op (now, now') (UpdateProgress jid percent stg txt) s =
     snd (update_progress jid percent stg txt s)"
| "apply_op (now, now') (Update jid kwargs) s = snd (update_job jid kwargs s)"
| "apply_op (now, now') (Finish jid success msg) s = snd (finish_job now now' jid success msg s)"
| "apply_op (now, now') (Cancel jid) s = snd (cancel_job now now' jid s)"

fun run_ops :: "((string \<times> string) \<times> op) list \<Rightarrow> store \<Rightarrow> store" where
  "run_ops [] s = s"
| "run_ops ((t, c) # cs) s = run_ops cs (apply_op t c s)"

text \<open>Repeated \<open>claim_job\<close> on one job, one timestamp per call: the results and the store.\<close>

fun claim_many :: "string list \<Rightarrow> int \<Rightarrow> store \<Rightarrow> bool list \<times> store" where
  "claim_many [] jid s = ([], s)"
| "claim_many (now # ts) jid s =
     (case claim_job now jid s of
        (Inl e, s1) \<Rightarrow> ([], s1)
      | (Inr b, s1) \<Rightarrow> (case claim_many ts jid s1 of (bs, s2) \<Rightarrow> (b # bs, s2)))"



subsection \<open>Example stores\<close>

text \<open>
  The \<open>json.dumps\<close> of the example calls of \<open>update_episode\<close>, none of which passes
  \<open>stage_data\<close>.
\<close>

definition no_stage_data :: "unit \<Rightarrow> string" where
  "no_stage_data d = ''null''"

text \<open>The database after \<open>init_db\<close>: both tables empty, no key handed out yet.\<close>

definition empty_store :: store where
  "empty_store = \<lparr>jobs = [], episodes = [], jobs_seq = 0, episodes_seq = 0\<rparr>"

text \<open>One job, just created: its key is 1 and its status \<open>queued\<close>.\<close>

definition one_queued :: store where
  "one_queued = snd (create_job ''t0'' ''http://x'' None None empty_store)"

text \<open>
  The scenario of the specification: a job with two pending episodes is claimed and its
  first episode completes.
\<close>

definition two_episodes :: store where
  "two_episodes =
     snd (create_episode 1 2 ''Episode 2'' (snd (create_episode 1 1 ''Episode 1'' one_queued)))"

definition first_complete :: store where
  "first_complete =
     snd (update_episode no_stage_data ''t2'' 1 (Some EpisodeStatus_COMPLETE)
            None None None None (snd (claim_job ''t1'' 1 two_episodes)))"


text \<open>The job of \<open>one_queued\<close> claimed, started and at 30 percent in stage \<open>download\<close>.\<close>

definition downloading :: store where
  "downloading =
     run_ops [((''t1'', ''t1''), Claim 1), ((''t2'', ''t2''), Start 1 4242 ''job.log''),
              ((''t3'', ''t3''), UpdateProgress 1 30 (Some ''download'') None)] one_queued"

text \<open>The first episode of \<open>two_episodes\<close> has entered \<open>get_stream\<close> at time \<open>t1\<close>.\<close>

definition streaming :: store where
  "streaming =
     snd (update_episode no_stage_data ''t1'' 1 (Some EpisodeStatus_GET_STREAM)
            None None None None two_episodes)"

text \<open>
  Three jobs with one episode each: job 1 is running, job 2 finished with success,
  job 3 was cancelled.
\<close>

definition three_jobs :: store where
  "three_jobs =
     run_ops [((''t4'', ''t4''), Claim 1), ((''t5'', ''t5''), Claim 2),
              ((''t6'', ''t6''), Finish 2 True None), ((''t7'', ''t8''), Cancel 3)]
       (snd (create_episode 3 1 ''C1''
         (snd (create_episode 2 1 ''B1''
           (snd (create_episode 1 1 ''A1''
             (run_ops [((''t1'', ''t1''), Create ''http://x'' None None),
                       ((''t2'', ''t2''), Create ''http://y'' None None),
                       ((''t3'', ''t3''), Create ''http://z'' None None)] empty_store)))))))"


section \<open>Properties\<close>

lemmas status_defs =
  JobStatus_QUEUED_def JobStatus_RUNNING_def JobStatus_SUCCESS_def JobStatus_FAILED_def
  JobStatus_CANCELED_def JobStage_INIT_def JobStage_DONE_def STAGE_PROGRESS_INIT_def
  EpisodeStatus_PENDING_def EpisodeStatus_GET_STREAM_def EpisodeStatus_DOWNLOAD_VIDEO_def
  EpisodeStatus_MERGE_VIDEO_def EpisodeStatus_DOWNLOAD_SUBTITLES_def
  EpisodeStatus_COMPLETE_def EpisodeStatus_FAILED_def


subsection \<open>Claiming a job\<close>

lemma claim_job_result:
  "fst (claim_job now jid s) =
     Inr (\<exists>j \<in> set (jobs s). job_id j = jid \<and> status j = TEXT JobStatus_QUEUED)"
  by (simp add: claim_job_def Let_def filter_empty_conv sql_eq_def)

lemma claim_job_frame:
  "episodes (snd (claim_job now jid s)) = episodes s"
  "jobs_seq (snd (claim_job now jid s)) = jobs_seq s"
  "episodes_seq (snd (claim_job now jid s)) = episodes_seq s"
  "length (jobs (snd (claim_job now jid s))) = length (jobs s)"
  by (simp_all add: claim_job_def Let_def)

lemma claim_job_rows:
  "i < length (jobs s) \<Longrightarrow>
   jobs (snd (claim_job now jid s)) ! i =
     (if job_id (jobs s ! i) = jid \<and> status (jobs s ! i) = TEXT JobStatus_QUEUED
      then (jobs s ! i)\<lparr>status := TEXT JobStatus_RUNNING, started_at := TEXT now\<rparr>
      else jobs s ! i)"
  by (simp add: claim_job_def Let_def sql_eq_def)


lemma claim_job_miss:
  assumes "\<not> (\<exists>j \<in> set (jobs s). job_id j = jid \<and> status j = TEXT JobStatus_QUEUED)"
  shows "snd (claim_job now jid s) = s"
proof -
  have "map (\<lambda>j. if job_id j = jid \<and> sql_eq (status j) JobStatus_QUEUED
                  then j\<lparr>status := TEXT JobStatus_RUNNING, started_at := TEXT now\<rparr> else j) (jobs s)
        = jobs s"
  proof (intro map_idI)
    fix x assume "x \<in> set (jobs s)"
    with assms have "\<not> (job_id x = jid \<and> status x = TEXT JobStatus_QUEUED)" by blast
    then show "(if job_id x = jid \<and> sql_eq (status x) JobStatus_QUEUED
                then x\<lparr>status := TEXT JobStatus_RUNNING, started_at := TEXT now\<rparr> else x) = x"
      by (auto simp add: sql_eq_def)
  qed
  then show ?thesis by (simp add: claim_job_def Let_def)
qed

lemma claim_job_none_queued:
  "\<not> (\<exists>j \<in> set (jobs (snd (claim_job now jid s))).
         job_id j = jid \<and> status j = TEXT JobStatus_QUEUED)"
proof -
  define f :: "job \<Rightarrow> job" where "f = (\<lambda>j. if job_id j = jid \<and> sql_eq (status j) JobStatus_QUEUED
              then j\<lparr>status := TEXT JobStatus_RUNNING, started_at := TEXT now\<rparr> else j)"
  have "JobStatus_RUNNING \<noteq> JobStatus_QUEUED"
    by (simp add: JobStatus_RUNNING_def JobStatus_QUEUED_def)
  then have f: "\<And>j. \<not> (job_id (f j) = jid \<and> status (f j) = TEXT JobStatus_QUEUED)"
    by (auto simp add: f_def sql_eq_def)
  have "jobs (snd (claim_job now jid s)) = map f (jobs s)"
    by (simp add: claim_job_def Let_def f_def)
  then have img: "set (jobs (snd (claim_job now jid s))) = f ` set (jobs s)"
    by (simp only: set_map)
  show ?thesis
  proof
    assume "\<exists>j \<in> set (jobs (snd (claim_job now jid s))).
              job_id j = jid \<and> status j = TEXT JobStatus_QUEUED"
    then obtain j' where j': "j' \<in> f ` set (jobs s)"
        "job_id j' = jid \<and> status j' = TEXT JobStatus_QUEUED"
      unfolding img by blast
    then obtain j where "j' = f j" by blast
    with j'(2) f[of j] show False by simp
  qed
qed

lemma claim_many_miss:
  "\<not> (\<exists>j \<in> set (jobs s). job_id j = jid \<and> status j = TEXT JobStatus_QUEUED) \<Longrightarrow>
   claim_many ts jid s = (replicate (length ts) False, s)"
proof (induction ts)
  case Nil
  then show ?case by simp
next
  case (Cons t ts)
  have "fst (claim_job t jid s) = Inr False"
    using Cons.prems by (simp add: claim_job_result)
  moreover have "snd (claim_job t jid s) = s"
    using Cons.prems by (rule claim_job_miss)
  ultimately have "claim_job t jid s = (Inr False, s)"
    by (simp add: prod_eq_iff)
  then show ?case using Cons by simp
qed

lemma claim_many_first:
  "fst (claim_many (t # ts) jid s) =
     (\<exists>j \<in> set (jobs s). job_id j = jid \<and> status j = TEXT JobStatus_QUEUED)
       # replicate (length ts) False"
proof -
  obtain r s1 where c: "claim_job t jid s = (r, s1)" by (cases "claim_job t jid s")
  have r: "r = Inr (\<exists>j \<in> set (jobs s). job_id j = jid \<and> status j = TEXT JobStatus_QUEUED)"
    using claim_job_result[of t jid s] c by simp
  have "\<not> (\<exists>j \<in> set (jobs s1). job_id j = jid \<and> status j = TEXT JobStatus_QUEUED)"
    using claim_job_none_queued[of t jid s] c by simp
  then have "claim_many ts jid s1 = (replicate (length ts) False, s1)"
    by (rule claim_many_miss)
  then show ?thesis using c r by simp
qed


text \<open>
  Claim C1. \<open>claim_job\<close> returns \<open>True\<close> exactly when a row with that id and status
  \<open>queued\<close> exists at the call. It never touches the episodes or the key counters and
  keeps every row in place; a row with that id and status \<open>queued\<close> gets status
  \<open>running\<close> and \<open>started_at = now\<close>, every other row stays as it is, so a call that
  returns \<open>False\<close> leaves the whole store unchanged. In a run of claims on the same id
  with nothing in between, the first call returns whether the job was queued and every
  later call returns \<open>False\<close>: on a queued job exactly the first claim wins.
\<close>

theorem claim_job_exactly_one_winner:
  "fst (claim_job now jid s) =
     Inr (\<exists>j \<in> set (jobs s). job_id j = jid \<and> status j = TEXT JobStatus_QUEUED)
   \<and> (\<not> (\<exists>j \<in> set (jobs s). job_id j = jid \<and> status j = TEXT JobStatus_QUEUED)
        \<longrightarrow> snd (claim_job now jid s) = s)
   \<and> episodes (snd (claim_job now jid s)) = episodes s
   \<and> jobs_seq (snd (claim_job now jid s)) = jobs_seq s
   \<and> episodes_seq (snd (claim_job now jid s)) = episodes_seq s
   \<and> length (jobs (snd (claim_job now jid s))) = length (jobs s)
   \<and> (\<forall>i < length (jobs s).
         jobs (snd (claim_job now jid s)) ! i =
           (if job_id (jobs s ! i) = jid \<and> status (jobs s ! i) = TEXT JobStatus_QUEUED
            then (jobs s ! i)\<lparr>status := TEXT JobStatus_RUNNING, started_at := TEXT now\<rparr>
            else jobs s ! i))
   \<and> fst (claim_many (now # ts) jid s) =
       (\<exists>j \<in> set (jobs s). job_id j = jid \<and> status j = TEXT JobStatus_QUEUED)
         # replicate (length ts) False"
  using claim_job_result [of now jid s] claim_job_miss [of s jid now]
    claim_job_frame [of now jid s] claim_job_rows [of _ s now jid]
    claim_many_first [of now ts jid s]
  by blast

theorem claim_job_exactly_one_winner_witness:
  "(\<exists>j \<in> set (jobs one_queued). job_id j = 1 \<and> status j = TEXT JobStatus_QUEUED)
   \<and> (0::nat) < length (jobs one_queued)
   \<and> fst (claim_job ''t1'' 1 one_queued) = Inr True
   \<and> status (jobs (snd (claim_job ''t1'' 1 one_queued)) ! 0) = TEXT JobStatus_RUNNING
   \<and> started_at (jobs (snd (claim_job ''t1'' 1 one_queued)) ! 0) = TEXT ''t1''
   \<and> fst (claim_many [''t1'', ''t2'', ''t3''] 1 one_queued) = [True, False, False]
   \<and> \<not> (\<exists>j \<in> set (jobs one_queued). job_id j = 2 \<and> status j = TEXT JobStatus_QUEUED)
   \<and> snd (claim_job ''t1'' 2 one_queued) = one_queued"
proof -
  have q: "jobs one_queued \<noteq> [] \<and> job_id (jobs one_queued ! 0) = 1
      \<and> status (jobs one_queued ! 0) = TEXT JobStatus_QUEUED \<and> length (jobs one_queued) = 1"
    by (simp add: one_queued_def create_job_def empty_store_def next_rowid_def Let_def)
  then have ex1: "\<exists>j \<in> set (jobs one_queued). job_id j = 1 \<and> status j = TEXT JobStatus_QUEUED"
    by (metis nth_mem length_greater_0_conv)
  have ex2: "\<not> (\<exists>j \<in> set (jobs one_queued). job_id j = 2 \<and> status j = TEXT JobStatus_QUEUED)"
    by (simp add: one_queued_def create_job_def empty_store_def next_rowid_def Let_def)
  show ?thesis
    using q ex1 ex2
      claim_job_exactly_one_winner [of "''t1''" 1 one_queued "[''t2'', ''t3'']"]
      claim_job_exactly_one_winner [of "''t1''" 2 one_queued "[]"]
    by simp
qed


subsection \<open>The cascade from a failed or cancelled job to its episodes\<close>

lemma sql_update_jobs_frame:
  "episodes (snd (sql_update_jobs jid kvs s)) = episodes s"
  "jobs_seq (snd (sql_update_jobs jid kvs s)) = jobs_seq s"
  "episodes_seq (snd (sql_update_jobs jid kvs s)) = episodes_seq s"
  "length (jobs (snd (sql_update_jobs jid kvs s))) = length (jobs s)"
  by (simp_all add: sql_update_jobs_def)

lemma update_job_frame:
  "episodes (snd (update_job jid kwargs s)) = episodes s"
  "jobs_seq (snd (update_job jid kwargs s)) = jobs_seq s"
  "episodes_seq (snd (update_job jid kwargs s)) = episodes_seq s"
  "length (jobs (snd (update_job jid kwargs s))) = length (jobs s)"
  by (simp_all add: update_job_def Let_def sql_update_jobs_frame)

lemma finish_update_ok:
  "fst (update_job jid
          [(''status'', TEXT (if success then JobStatus_SUCCESS else JobStatus_FAILED)),
           (''finished_at'', TEXT now),
           (''error_message'', opt_text msg),
           (''progress_percent'', if success then INTEGER 100 else NULL),
           (''stage'', if success then TEXT JobStage_DONE else NULL)] s) = Inr ()"
  by (simp add: update_job_def sql_update_jobs_def VALID_COLUMNS_def NOT_NULL_COLUMNS_def)

lemma cancel_update_ok:
  "fst (update_job jid
          [(''status'', TEXT JobStatus_CANCELED), (''finished_at'', TEXT now)] s) = Inr ()"
  by (simp add: update_job_def sql_update_jobs_def VALID_COLUMNS_def NOT_NULL_COLUMNS_def)


lemma cancel_job_episodes_frame:
  "fst (cancel_job_episodes now jid s) = Inr ()"
  "jobs (snd (cancel_job_episodes now jid s)) = jobs s"
  "jobs_seq (snd (cancel_job_episodes now jid s)) = jobs_seq s"
  "episodes_seq (snd (cancel_job_episodes now jid s)) = episodes_seq s"
  "length (episodes (snd (cancel_job_episodes now jid s))) = length (episodes s)"
  by (simp_all add: cancel_job_episodes_def)

lemma cancel_job_episodes_rows:
  "i < length (episodes s) \<Longrightarrow>
   episodes (snd (cancel_job_episodes now jid s)) ! i =
     (if e_job_id (episodes s ! i) = jid \<and> e_status (episodes s ! i) \<noteq> EpisodeStatus_COMPLETE
           \<and> e_status (episodes s ! i) \<noteq> EpisodeStatus_FAILED
      then (episodes s ! i)\<lparr>e_status := EpisodeStatus_FAILED,
             e_error_message := Some ''Job was cancelled'', e_finished_at := Some now\<rparr>
      else episodes s ! i)"
  by (simp add: cancel_job_episodes_def)

lemma cancel_job_episodes_terminal:
  assumes "e \<in> set (episodes (snd (cancel_job_episodes now jid s)))" "e_job_id e = jid"
  shows "e_status e = EpisodeStatus_COMPLETE \<or> e_status e = EpisodeStatus_FAILED"
proof -
  from assms(1) obtain i where i: "i < length (episodes s)"
      "e = episodes (snd (cancel_job_episodes now jid s)) ! i"
    by (metis in_set_conv_nth cancel_job_episodes_frame(5))
  show ?thesis
    using assms(2) unfolding i(2) cancel_job_episodes_rows [OF i(1)]
    by (auto split: if_splits)
qed

lemma cancel_job_episodes_noop:
  assumes "\<forall>e \<in> set (episodes s). e_job_id e = jid \<longrightarrow>
             e_status e = EpisodeStatus_COMPLETE \<or> e_status e = EpisodeStatus_FAILED"
  shows "snd (cancel_job_episodes now jid s) = s"
proof -
  have "map (\<lambda>e. if e_job_id e = jid \<and>
                     e_status e \<notin> set [EpisodeStatus_COMPLETE, EpisodeStatus_FAILED]
                  then e\<lparr>e_status := EpisodeStatus_FAILED,
                         e_error_message := Some ''Job was cancelled'',
                         e_finished_at := Some now\<rparr>
                  else e) (episodes s) = episodes s"
  proof (intro map_idI)
    fix x assume "x \<in> set (episodes s)"
    with assms have "e_job_id x = jid \<longrightarrow>
        e_status x = EpisodeStatus_COMPLETE \<or> e_status x = EpisodeStatus_FAILED" by blast
    then show "(if e_job_id x = jid \<and>
                     e_status x \<notin> set [EpisodeStatus_COMPLETE, EpisodeStatus_FAILED]
                  then x\<lparr>e_status := EpisodeStatus_FAILED,
                         e_error_message := Some ''Job was cancelled'',
                         e_finished_at := Some now\<rparr>
                  else x) = x"
      by auto
  qed
  then show ?thesis by (simp add: cancel_job_episodes_def)
qed

lemma finish_job_failure:
  "finish_job now now' jid False msg s =
     cancel_job_episodes now' jid
       (snd (update_job jid
          [(''status'', TEXT JobStatus_FAILED), (''finished_at'', TEXT now),
           (''error_message'', opt_text msg), (''progress_percent'', NULL),
           (''stage'', NULL)] s))"
proof -
  obtain r s1 where u: "update_job jid
          [(''status'', TEXT JobStatus_FAILED), (''finished_at'', TEXT now),
           (''error_message'', opt_text msg), (''progress_percent'', NULL),
           (''stage'', NULL)] s = (r, s1)"
    by (cases "update_job jid
          [(''status'', TEXT JobStatus_FAILED), (''finished_at'', TEXT now),
           (''error_message'', opt_text msg), (''progress_percent'', NULL),
           (''stage'', NULL)] s")
  have "r = Inr ()" using finish_update_ok [of jid False now msg s] u by simp
  then show ?thesis using u by (simp add: finish_job_def)
qed

lemma cancel_job_unfold:
  "cancel_job now now' jid s =
     cancel_job_episodes now' jid
       (snd (update_job jid
          [(''status'', TEXT JobStatus_CANCELED), (''finished_at'', TEXT now)] s))"
proof -
  obtain r s1 where u: "update_job jid
          [(''status'', TEXT JobStatus_CANCELED), (''finished_at'', TEXT now)] s = (r, s1)"
    by (cases "update_job jid
          [(''status'', TEXT JobStatus_CANCELED), (''finished_at'', TEXT now)] s")
  have "r = Inr ()" using cancel_update_ok [of jid now s] u by simp
  then show ?thesis using u by (simp add: cancel_job_def)
qed


lemma first_complete_episodes:
  "episodes first_complete =
     [\<lparr>e_id = 1, e_job_id = 1, e_episode_number = 1, e_title = ''Episode 1'',
       e_status = EpisodeStatus_COMPLETE, e_progress_percent = Some 100,
       e_stage_data = None, e_error_message = None, e_started_at = None,
       e_finished_at = Some ''t2'', e_log_file = None\<rparr>,
      \<lparr>e_id = 2, e_job_id = 1, e_episode_number = 2, e_title = ''Episode 2'',
       e_status = EpisodeStatus_PENDING, e_progress_percent = Some 0,
       e_stage_data = None, e_error_message = None, e_started_at = None,
       e_finished_at = None, e_log_file = None\<rparr>]"
  by (simp add: first_complete_def two_episodes_def one_queued_def empty_store_def
      create_job_def create_episode_def aiosqlite_connect_def next_rowid_def claim_job_def
      update_episode_def status_updates_def no_updates_def apply_updates_def Let_def)

text \<open>
  Claim C2. Let \<open>s'\<close> be the store after \<open>finish_job\<close> with \<open>success = False\<close> or after
  \<open>cancel_job\<close> on the job \<open>jid\<close>. Both calls return normally. In \<open>s'\<close> every episode
  of \<open>jid\<close> has status \<open>complete\<close> or \<open>failed\<close>. The episodes keep their places: one of
  \<open>jid\<close> whose status was neither gets status \<open>failed\<close>, the message
  \<open>Job was cancelled\<close> and \<open>finished_at\<close> the timestamp of the cascade; every other
  episode is as before. Running the cascade again on \<open>s'\<close> changes nothing, as it does
  on any store in which the job has no active episode left.
\<close>

theorem cascade_no_dangling_episode:
  assumes "s' = snd (finish_job now now' jid False msg s) \<or> s' = snd (cancel_job now now' jid s)"
  shows "fst (finish_job now now' jid False msg s) = Inr ()
   \<and> fst (cancel_job now now' jid s) = Inr ()
   \<and> (\<forall>e \<in> set (episodes s'). e_job_id e = jid \<longrightarrow>
         e_status e = EpisodeStatus_COMPLETE \<or> e_status e = EpisodeStatus_FAILED)
   \<and> length (episodes s') = length (episodes s)
   \<and> (\<forall>i < length (episodes s).
         episodes s' ! i =
           (if e_job_id (episodes s ! i) = jid
               \<and> e_status (episodes s ! i) \<noteq> EpisodeStatus_COMPLETE
               \<and> e_status (episodes s ! i) \<noteq> EpisodeStatus_FAILED
            then (episodes s ! i)\<lparr>e_status := EpisodeStatus_FAILED,
                   e_error_message := Some ''Job was cancelled'', e_finished_at := Some now'\<rparr>
            else episodes s ! i))
   \<and> snd (cancel_job_episodes now'' jid s') = s'
   \<and> ((\<forall>e \<in> set (episodes s). e_job_id e = jid \<longrightarrow>
          e_status e = EpisodeStatus_COMPLETE \<or> e_status e = EpisodeStatus_FAILED)
        \<longrightarrow> snd (cancel_job_episodes now' jid s) = s)"
proof -
  from assms obtain kw where s': "s' = snd (cancel_job_episodes now' jid (snd (update_job jid kw s)))"
    unfolding finish_job_failure cancel_job_unfold by blast
  have ok: "fst (finish_job now now' jid False msg s) = Inr ()"
      "fst (cancel_job now now' jid s) = Inr ()"
    unfolding finish_job_failure cancel_job_unfold by (rule cancel_job_episodes_frame(1))+
  have terminal: "\<forall>e \<in> set (episodes s'). e_job_id e = jid \<longrightarrow>
         e_status e = EpisodeStatus_COMPLETE \<or> e_status e = EpisodeStatus_FAILED"
    unfolding s' using cancel_job_episodes_terminal by blast
  have len: "length (episodes s') = length (episodes s)"
    unfolding s' by (simp add: cancel_job_episodes_frame(5) update_job_frame(1))
  have rows: "\<forall>i < length (episodes s).
         episodes s' ! i =
           (if e_job_id (episodes s ! i) = jid
               \<and> e_status (episodes s ! i) \<noteq> EpisodeStatus_COMPLETE
               \<and> e_status (episodes s ! i) \<noteq> EpisodeStatus_FAILED
            then (episodes s ! i)\<lparr>e_status := EpisodeStatus_FAILED,
                   e_error_message := Some ''Job was cancelled'', e_finished_at := Some now'\<rparr>
            else episodes s ! i)"
  proof (intro allI impI)
    fix i assume "i < length (episodes s)"
    then have "i < length (episodes (snd (update_job jid kw s)))"
      by (simp add: update_job_frame(1))
    from cancel_job_episodes_rows [OF this, of now' jid]
    show "episodes s' ! i =
           (if e_job_id (episodes s ! i) = jid
               \<and> e_status (episodes s ! i) \<noteq> EpisodeStatus_COMPLETE
               \<and> e_status (episodes s ! i) \<noteq> EpisodeStatus_FAILED
            then (episodes s ! i)\<lparr>e_status := EpisodeStatus_FAILED,
                   e_error_message := Some ''Job was cancelled'', e_finished_at := Some now'\<rparr>
            else episodes s ! i)"
      unfolding s' by (simp only: update_job_frame(1))
  qed
  have again: "snd (cancel_job_episodes now'' jid s') = s'"
    using terminal by (rule cancel_job_episodes_noop)
  have noop: "(\<forall>e \<in> set (episodes s). e_job_id e = jid \<longrightarrow>
          e_status e = EpisodeStatus_COMPLETE \<or> e_status e = EpisodeStatus_FAILED)
        \<longrightarrow> snd (cancel_job_episodes now' jid s) = s"
    using cancel_job_episodes_noop by blast
  from ok terminal len rows again noop show ?thesis by blast
qed

theorem cascade_no_dangling_episode_witness:
  "map e_status (episodes (snd (cancel_job ''t3'' ''t4'' 1 first_complete)))
     = [EpisodeStatus_COMPLETE, EpisodeStatus_FAILED]
   \<and> map e_error_message (episodes (snd (cancel_job ''t3'' ''t4'' 1 first_complete)))
     = [None, Some ''Job was cancelled'']
   \<and> map e_finished_at (episodes (snd (cancel_job ''t3'' ''t4'' 1 first_complete)))
     = [Some ''t2'', Some ''t4'']
   \<and> map e_status (episodes (snd (finish_job ''t3'' ''t4'' 1 False (Some ''boom'') first_complete)))
     = [EpisodeStatus_COMPLETE, EpisodeStatus_FAILED]
   \<and> snd (cancel_job_episodes ''t5'' 1 (snd (cancel_job ''t3'' ''t4'' 1 first_complete)))
     = snd (cancel_job ''t3'' ''t4'' 1 first_complete)"
proof -
  have ne: "EpisodeStatus_PENDING \<noteq> EpisodeStatus_COMPLETE"
      "EpisodeStatus_PENDING \<noteq> EpisodeStatus_FAILED"
    by (simp_all add: EpisodeStatus_PENDING_def EpisodeStatus_COMPLETE_def EpisodeStatus_FAILED_def)
  note c = cascade_no_dangling_episode
    [where s = first_complete and now = "''t3''" and now' = "''t4''" and jid = 1
       and now'' = "''t5''" and msg = "Some ''boom''", OF disjI2, OF refl]
  note f = cascade_no_dangling_episode
    [where s = first_complete and now = "''t3''" and now' = "''t4''" and jid = 1
       and now'' = "''t5''" and msg = "Some ''boom''", OF disjI1, OF refl]
  from c have cl: "length (episodes (snd (cancel_job ''t3'' ''t4'' 1 first_complete))) = 2"
    by (simp add: first_complete_episodes)
  from f have fl: "length (episodes (snd (finish_job ''t3'' ''t4'' 1 False (Some ''boom'') first_complete))) = 2"
    by (simp add: first_complete_episodes)
  from c have c0: "episodes (snd (cancel_job ''t3'' ''t4'' 1 first_complete)) ! 0
      = episodes first_complete ! 0"
    by (simp add: first_complete_episodes)
  from c have "1 < length (episodes first_complete) \<longrightarrow>
     episodes (snd (cancel_job ''t3'' ''t4'' 1 first_complete)) ! 1
      = (if e_job_id (episodes first_complete ! 1) = 1
               \<and> e_status (episodes first_complete ! 1) \<noteq> EpisodeStatus_COMPLETE
               \<and> e_status (episodes first_complete ! 1) \<noteq> EpisodeStatus_FAILED
            then (episodes first_complete ! 1)\<lparr>e_status := EpisodeStatus_FAILED,
                   e_error_message := Some ''Job was cancelled'', e_finished_at := Some ''t4''\<rparr>
            else episodes first_complete ! 1)"
    by blast
  then have c1: "episodes (snd (cancel_job ''t3'' ''t4'' 1 first_complete)) ! 1
      = (episodes first_complete ! 1)\<lparr>e_status := EpisodeStatus_FAILED,
                   e_error_message := Some ''Job was cancelled'', e_finished_at := Some ''t4''\<rparr>"
    using ne by (simp add: first_complete_episodes)
  from f have f0: "episodes (snd (finish_job ''t3'' ''t4'' 1 False (Some ''boom'') first_complete)) ! 0
      = episodes first_complete ! 0"
    by (simp add: first_complete_episodes)
  from f have "1 < length (episodes first_complete) \<longrightarrow>
     episodes (snd (finish_job ''t3'' ''t4'' 1 False (Some ''boom'') first_complete)) ! 1
      = (if e_job_id (episodes first_complete ! 1) = 1
               \<and> e_status (episodes first_complete ! 1) \<noteq> EpisodeStatus_COMPLETE
               \<and> e_status (episodes first_complete ! 1) \<noteq> EpisodeStatus_FAILED
            then (episodes first_complete ! 1)\<lparr>e_status := EpisodeStatus_FAILED,
                   e_error_message := Some ''Job was cancelled'', e_finished_at := Some ''t4''\<rparr>
            else episodes first_complete ! 1)"
    by blast
  then have f1: "episodes (snd (finish_job ''t3'' ''t4'' 1 False (Some ''boom'') first_complete)) ! 1
      = (episodes first_complete ! 1)\<lparr>e_status := EpisodeStatus_FAILED,
                   e_error_message := Some ''Job was cancelled'', e_finished_at := Some ''t4''\<rparr>"
    using ne by (simp add: first_complete_episodes)
  have two: "xs = [xs ! 0, xs ! 1]" if "length xs = 2" for xs :: "episode list"
  proof -
    from that obtain a b where "xs = [a, b]"
      by (auto simp add: length_Suc_conv numeral_2_eq_2)
    then show ?thesis by simp
  qed
  have ce: "episodes (snd (cancel_job ''t3'' ''t4'' 1 first_complete)) =
      [episodes first_complete ! 0,
       (episodes first_complete ! 1)\<lparr>e_status := EpisodeStatus_FAILED,
                   e_error_message := Some ''Job was cancelled'', e_finished_at := Some ''t4''\<rparr>]"
    using two [OF cl] c0 c1 by simp
  have fe: "episodes (snd (finish_job ''t3'' ''t4'' 1 False (Some ''boom'') first_complete)) =
      [episodes first_complete ! 0,
       (episodes first_complete ! 1)\<lparr>e_status := EpisodeStatus_FAILED,
                   e_error_message := Some ''Job was cancelled'', e_finished_at := Some ''t4''\<rparr>]"
    using two [OF fl] f0 f1 by simp
  from c have again: "snd (cancel_job_episodes ''t5'' 1 (snd (cancel_job ''t3'' ''t4'' 1 first_complete)))
     = snd (cancel_job ''t3'' ''t4'' 1 first_complete)"
    by blast
  show ?thesis
    unfolding ce fe using again by (simp add: first_complete_episodes)
qed


subsection \<open>The status of a job\<close>




















lemma finish_job_jobs:
  "jobs (snd (finish_job now now' jid success msg s)) =
     map (\<lambda>j. if job_id j = jid
               then j\<lparr>status := TEXT (if success then JobStatus_SUCCESS else JobStatus_FAILED),
                      finished_at := TEXT now, error_message := opt_text msg,
                      progress_percent := (if success then INTEGER 100 else NULL),
                      stage := (if success then TEXT JobStage_DONE else NULL)\<rparr>
               else j)
         (jobs s)"
  by (simp add: finish_job_def cancel_job_episodes_def update_job_def
      sql_update_jobs_def VALID_COLUMNS_def NOT_NULL_COLUMNS_def set_col_def)


lemma one_queued_jobs:
  "jobs one_queued =
     [\<lparr>job_id = 1, url = TEXT ''http://x'', profile = NULL, extra_args = NULL,
       status = TEXT JobStatus_QUEUED, stage = NULL, progress_percent = INTEGER 0,
       progress_text = NULL, created_at = TEXT ''t0'', started_at = NULL,
       finished_at = NULL, error_message = NULL, log_file = NULL, pid = NULL\<rparr>]"
  by (simp add: one_queued_def create_job_def empty_store_def next_rowid_def opt_text_def)







subsection \<open>Finishing a job with failure\<close>

lemma update_job_hit:
  assumes "kwargs \<noteq> []" "\<forall>k \<in> set (map fst kwargs). k \<in> set VALID_COLUMNS"
    "\<forall>kv \<in> set kwargs. fst kv \<in> set NOT_NULL_COLUMNS \<longrightarrow> snd kv \<noteq> NULL"
  shows "update_job jid kwargs s =
    (Inr (), s\<lparr>jobs := map (\<lambda>j. if job_id j = jid then set_cols kwargs j else j) (jobs s)\<rparr>)"
proof -
  have "filter (\<lambda>k. k \<notin> set VALID_COLUMNS) (map fst kwargs) = []"
    using assms(2) by (simp add: filter_empty_conv)
  moreover have "\<not> (\<exists>kv \<in> set kwargs. fst kv \<in> set NOT_NULL_COLUMNS \<and> snd kv = NULL)"
    using assms(3) by blast
  ultimately show ?thesis
    using assms(1) by (simp add: update_job_def sql_update_jobs_def Let_def)
qed

lemma downloading_jobs:
  "jobs downloading =
     [\<lparr>job_id = 1, url = TEXT ''http://x'', profile = NULL, extra_args = NULL,
       status = TEXT JobStatus_RUNNING, stage = TEXT ''download'',
       progress_percent = INTEGER 30,
       progress_text = NULL, created_at = TEXT ''t0'', started_at = TEXT ''t1'',
       finished_at = NULL, error_message = NULL, log_file = TEXT ''job.log'',
       pid = INTEGER 4242\<rparr>]"
  by (simp add: downloading_def claim_job_def one_queued_jobs sql_eq_def start_job_def
      update_progress_def truthy_def opt_text_def update_job_def sql_update_jobs_def
      VALID_COLUMNS_def NOT_NULL_COLUMNS_def set_col_def Let_def)

text \<open>
  Claim C4, on the code. The claim says that \<open>finish_job\<close> with \<open>success = False\<close>
  leaves \<open>progress_percent\<close> and \<open>stage\<close> of the job as they were. The call passes
  \<open>progress_percent = None\<close> and \<open>stage = None\<close> to \<open>update_job\<close>, which writes every
  keyword it is given: a job at 30 percent in stage \<open>download\<close> ends with status
  \<open>failed\<close>, \<open>finished_at\<close> and the message set, and with both columns \<open>NULL\<close>.
\<close>

theorem finish_failure_clears_progress_and_stage:
  "map progress_percent (jobs downloading) = [INTEGER 30]
   \<and> map stage (jobs downloading) = [TEXT ''download'']
   \<and> fst (finish_job ''t4'' ''t5'' 1 False (Some ''boom'') downloading) = Inr ()
   \<and> map status (jobs (snd (finish_job ''t4'' ''t5'' 1 False (Some ''boom'') downloading)))
       = [TEXT JobStatus_FAILED]
   \<and> map finished_at (jobs (snd (finish_job ''t4'' ''t5'' 1 False (Some ''boom'') downloading)))
       = [TEXT ''t4'']
   \<and> map error_message (jobs (snd (finish_job ''t4'' ''t5'' 1 False (Some ''boom'') downloading)))
       = [TEXT ''boom'']
   \<and> map progress_percent (jobs (snd (finish_job ''t4'' ''t5'' 1 False (Some ''boom'') downloading)))
       = [NULL]
   \<and> map stage (jobs (snd (finish_job ''t4'' ''t5'' 1 False (Some ''boom'') downloading)))
       = [NULL]"
proof -
  have ok: "fst (finish_job ''t4'' ''t5'' 1 False (Some ''boom'') downloading) = Inr ()"
    by (simp add: finish_job_failure cancel_job_episodes_frame(1))
  have js: "jobs (snd (finish_job ''t4'' ''t5'' 1 False (Some ''boom'') downloading)) =
     [\<lparr>job_id = 1, url = TEXT ''http://x'', profile = NULL, extra_args = NULL,
       status = TEXT JobStatus_FAILED, stage = NULL, progress_percent = NULL,
       progress_text = NULL, created_at = TEXT ''t0'', started_at = TEXT ''t1'',
       finished_at = TEXT ''t4'', error_message = TEXT ''boom'', log_file = TEXT ''job.log'',
       pid = INTEGER 4242\<rparr>]"
    by (simp add: finish_job_jobs downloading_jobs opt_text_def)
  show ?thesis unfolding js by (simp add: ok downloading_jobs)
qed


subsection \<open>Updating an episode\<close>

lemma two_episodes_episodes:
  "episodes two_episodes =
     [\<lparr>e_id = 1, e_job_id = 1, e_episode_number = 1, e_title = ''Episode 1'',
       e_status = EpisodeStatus_PENDING, e_progress_percent = Some 0,
       e_stage_data = None, e_error_message = None, e_started_at = None,
       e_finished_at = None, e_log_file = None\<rparr>,
      \<lparr>e_id = 2, e_job_id = 1, e_episode_number = 2, e_title = ''Episode 2'',
       e_status = EpisodeStatus_PENDING, e_progress_percent = Some 0,
       e_stage_data = None, e_error_message = None, e_started_at = None,
       e_finished_at = None, e_log_file = None\<rparr>]"
  by (simp add: two_episodes_def one_queued_def empty_store_def
      create_job_def create_episode_def aiosqlite_connect_def next_rowid_def Let_def)

lemma update_episode_status_only:
  "episodes (snd (update_episode json_dumps now eid (Some v) None None None None s)) =
     map (\<lambda>e. if e_id e = eid then apply_updates (status_updates now v no_updates) e else e)
       (episodes s)"
  by (simp add: update_episode_def Let_def status_updates_def no_updates_def)

lemma active_status_updates:
  "v \<in> set [EpisodeStatus_GET_STREAM, EpisodeStatus_DOWNLOAD_VIDEO,
            EpisodeStatus_MERGE_VIDEO, EpisodeStatus_DOWNLOAD_SUBTITLES] \<Longrightarrow>
   status_updates now v no_updates = no_updates\<lparr>u_status := Some v, u_started_at := Some now\<rparr>"
  by (auto simp add: status_updates_def no_updates_def truthy_def status_defs)

lemma update_episode_active:
  assumes "v \<in> set [EpisodeStatus_GET_STREAM, EpisodeStatus_DOWNLOAD_VIDEO,
            EpisodeStatus_MERGE_VIDEO, EpisodeStatus_DOWNLOAD_SUBTITLES]"
  shows "episodes (snd (update_episode json_dumps now eid (Some v) None None None None s)) =
     map (\<lambda>e. if e_id e = eid then e\<lparr>e_status := v, e_started_at := Some now\<rparr> else e)
       (episodes s)"
proof -
  have "apply_updates (no_updates\<lparr>u_status := Some v, u_started_at := Some now\<rparr>) e
      = e\<lparr>e_status := v, e_started_at := Some now\<rparr>" for e
    by (simp add: apply_updates_def no_updates_def)
  then show ?thesis
    by (simp add: update_episode_status_only active_status_updates [OF assms])
qed

text \<open>
  Claim C5, on the code. The claim says that an update to an active status leaves a
  \<open>started_at\<close> that is already set as it is. The test \<open>updates.get("started_at")\<close> reads
  the dictionary of the call, never the stored row: an episode that entered \<open>get_stream\<close>
  at \<open>t1\<close> and is moved to \<open>download_video\<close> at \<open>t2\<close> has \<open>started_at = t2\<close>.
\<close>

theorem active_status_overwrites_started_at:
  "map e_started_at (episodes streaming) = [Some ''t1'', None]
   \<and> map e_started_at
        (episodes (snd (update_episode no_stage_data ''t2'' 1
           (Some EpisodeStatus_DOWNLOAD_VIDEO) None None None None streaming)))
       = [Some ''t2'', None]"
  by (simp add: streaming_def update_episode_active two_episodes_episodes)


lemma status_updates_eq:
  "status_updates now v no_updates =
     \<lparr>u_status = Some v,
      u_finished_at =
        (if v = EpisodeStatus_COMPLETE \<or> v = EpisodeStatus_FAILED then Some now else None),
      u_progress_percent = (if v = EpisodeStatus_COMPLETE then Some 100 else None),
      u_started_at =
        (if v \<in> set [EpisodeStatus_GET_STREAM, EpisodeStatus_DOWNLOAD_VIDEO,
                               EpisodeStatus_MERGE_VIDEO, EpisodeStatus_DOWNLOAD_SUBTITLES]
         then Some now else None),
      u_error_message = None, u_stage_data = None, u_log_file = None\<rparr>"
  by (auto simp add: status_updates_def no_updates_def truthy_def status_defs)

lemma update_episode_built:
  "update_episode json_dumps now eid st percent msg stage_data lf s =
     (if built_updates json_dumps now st percent msg stage_data lf = no_updates then (Inr (), s)
      else (Inr (),
            s\<lparr>episodes :=
                map (\<lambda>e. if e_id e = eid
                         then apply_updates
                                (built_updates json_dumps now st percent msg stage_data lf) e
                         else e)
                    (episodes s)\<rparr>))"
proof -
  have "(let updates = no_updates;
         updates = (case st of None \<Rightarrow> updates | Some v \<Rightarrow> status_updates now v updates);
         updates = (case percent of None \<Rightarrow> updates
                    | Some p \<Rightarrow> updates\<lparr>u_progress_percent := Some p\<rparr>);
         updates = (case msg of None \<Rightarrow> updates | Some m \<Rightarrow> updates\<lparr>u_error_message := Some m\<rparr>);
         updates = (case stage_data of None \<Rightarrow> updates
                    | Some d \<Rightarrow> updates\<lparr>u_stage_data := Some (json_dumps d)\<rparr>);
         updates = (case lf of None \<Rightarrow> updates | Some f \<Rightarrow> updates\<lparr>u_log_file := Some f\<rparr>)
     in updates) = built_updates json_dumps now st percent msg stage_data lf"
  proof (cases st)
    case None
    then show ?thesis
      by (cases percent; cases msg; cases stage_data; cases lf)
         (simp_all add: built_updates_def no_updates_def)
  next
    case (Some v)
    then show ?thesis
      by (cases percent; cases msg; cases stage_data; cases lf)
         (simp_all add: built_updates_def status_updates_eq image_iff)
  qed
  then show ?thesis
    unfolding update_episode_def Let_def by simp
qed


lemma built_updates_complete:
  "built_updates json_dumps now (Some EpisodeStatus_COMPLETE) percent msg stage_data lf \<noteq> no_updates"
  "u_status (built_updates json_dumps now (Some EpisodeStatus_COMPLETE) percent msg stage_data lf)
     = Some EpisodeStatus_COMPLETE"
  "u_finished_at (built_updates json_dumps now (Some EpisodeStatus_COMPLETE) percent msg stage_data lf)
     = Some now"
  "u_progress_percent (built_updates json_dumps now (Some EpisodeStatus_COMPLETE) percent msg stage_data lf)
     = Some (case percent of None \<Rightarrow> 100 | Some p \<Rightarrow> p)"
  by (simp_all add: built_updates_def no_updates_def split: option.splits)

text \<open>
  Claim C6 as stated fails on the code. The claim says that an update to \<open>complete\<close>
  stores \<open>progress_percent = 100\<close> also when the call supplies another value. The
  method sets the key to 100 in the status branch and then overwrites it with the
  argument: completing an episode with \<open>progress_percent = 50\<close> stores 50.
\<close>

theorem complete_counterexample:
  "map e_status (episodes (snd (update_episode no_stage_data ''t1'' 1
       (Some EpisodeStatus_COMPLETE) (Some 50) None None None two_episodes)))
     = [EpisodeStatus_COMPLETE, EpisodeStatus_PENDING]
   \<and> map e_progress_percent (episodes (snd (update_episode no_stage_data ''t1'' 1
       (Some EpisodeStatus_COMPLETE) (Some 50) None None None two_episodes)))
     = [Some 50, Some 0]"
  by (simp add: update_episode_built built_updates_complete two_episodes_episodes
      apply_updates_def)

text \<open>
  Claim C6, amended. For every episode with the given id and every combination of the
  other arguments, an update with status \<open>complete\<close> stores status \<open>complete\<close> and
  \<open>finished_at = now\<close>, and stores \<open>progress_percent = 100\<close> when the call supplies no
  \<open>progress_percent\<close>; a supplied \<open>progress_percent\<close> is stored as given.
\<close>

theorem complete_sets_finished_at_and_default_progress:
  "\<forall>i < length (episodes s). e_id (episodes s ! i) = eid \<longrightarrow>
     e_status (episodes (snd (update_episode json_dumps now eid (Some EpisodeStatus_COMPLETE)
                  percent msg stage_data lf s)) ! i) = EpisodeStatus_COMPLETE
     \<and> e_finished_at (episodes (snd (update_episode json_dumps now eid
                  (Some EpisodeStatus_COMPLETE) percent msg stage_data lf s)) ! i) = Some now
     \<and> e_progress_percent (episodes (snd (update_episode json_dumps now eid
                  (Some EpisodeStatus_COMPLETE) percent msg stage_data lf s)) ! i)
         = Some (case percent of None \<Rightarrow> 100 | Some p \<Rightarrow> p)"
  by (simp add: update_episode_built built_updates_complete apply_updates_def)

theorem complete_sets_finished_at_and_default_progress_witness:
  "(1::nat) < length (episodes two_episodes) \<and> e_id (episodes two_episodes ! 1) = 2
   \<and> e_status (episodes (snd (update_episode no_stage_data ''t1'' 2
        (Some EpisodeStatus_COMPLETE) None None None None two_episodes)) ! 1)
       = EpisodeStatus_COMPLETE
   \<and> e_finished_at (episodes (snd (update_episode no_stage_data ''t1'' 2
        (Some EpisodeStatus_COMPLETE) None None None None two_episodes)) ! 1) = Some ''t1''
   \<and> e_progress_percent (episodes (snd (update_episode no_stage_data ''t1'' 2
        (Some EpisodeStatus_COMPLETE) None None None None two_episodes)) ! 1) = Some 100
   \<and> e_progress_percent (episodes (snd (update_episode no_stage_data ''t1'' 2
        (Some EpisodeStatus_COMPLETE) (Some 50) None None None two_episodes)) ! 1) = Some 50"
proof -
  have h: "(1::nat) < length (episodes two_episodes)" "e_id (episodes two_episodes ! 1) = 2"
    by (simp_all add: two_episodes_episodes)
  from h complete_sets_finished_at_and_default_progress
         [of two_episodes 2 no_stage_data "''t1''" None None None None]
       complete_sets_finished_at_and_default_progress
         [of two_episodes 2 no_stage_data "''t1''" "Some 50" None None None]
  show ?thesis by simp
qed



subsection \<open>Stage data through the episode store\<close>











subsection \<open>Purging the jobs that are not running\<close>

lemma purge_result:
  "fst (delete_all_jobs_except_running s) =
     Inr (length (filter (\<lambda>j. sql_ne (status j) JobStatus_RUNNING) (jobs s)),
          length (filter (\<lambda>j. sql_eq (status j) JobStatus_RUNNING) (jobs s)))"
  by (simp add: delete_all_jobs_except_running_def sql_delete_jobs_def Let_def)

lemma purge_jobs:
  "jobs (snd (delete_all_jobs_except_running s)) =
     filter (\<lambda>j. \<not> sql_ne (status j) JobStatus_RUNNING) (jobs s)"
  by (simp add: delete_all_jobs_except_running_def sql_delete_jobs_def Let_def)

lemma purge_keeps_episodes:
  "episodes (snd (delete_all_jobs_except_running s)) = episodes s"
  by (simp add: delete_all_jobs_except_running_def sql_delete_jobs_def Let_def
      aiosqlite_connect_def)

lemma sql_delete_jobs_cascade:
  assumes "foreign_keys db" "e \<in> set (episodes (snd (sql_delete_jobs db cond s)))"
  shows "\<not> (\<exists>j \<in> set (jobs s). cond j \<and> job_id j = e_job_id e)"
proof
  assume "\<exists>j \<in> set (jobs s). cond j \<and> job_id j = e_job_id e"
  then obtain j where j: "j \<in> set (jobs s)" "cond j" "job_id j = e_job_id e" by blast
  then have "e_job_id e \<in> set (map job_id (filter cond (jobs s)))"
    by force
  with assms show False by (simp add: sql_delete_jobs_def Let_def)
qed

lemma three_jobs_rows:
  "map job_id (jobs three_jobs) = [1, 2, 3]"
  "map status (jobs three_jobs) =
     [TEXT JobStatus_RUNNING, TEXT JobStatus_SUCCESS, TEXT JobStatus_CANCELED]"
  "map e_job_id (episodes three_jobs) = [1, 2, 3]"
  "map e_id (episodes three_jobs) = [1, 2, 3]"
  "map (\<lambda>j. (job_id j, status j)) (jobs three_jobs) =
      [(1, TEXT JobStatus_RUNNING), (2, TEXT JobStatus_SUCCESS), (3, TEXT JobStatus_CANCELED)]"
  by (simp_all add: three_jobs_def empty_store_def create_job_def create_episode_def
      aiosqlite_connect_def next_rowid_def claim_job_def sql_eq_def finish_job_def
      cancel_job_def cancel_job_episodes_def update_job_def sql_update_jobs_def
      VALID_COLUMNS_def NOT_NULL_COLUMNS_def set_col_def opt_text_def Let_def status_defs)


text \<open>
  Claim C8, on the code. The claim says that the purge removes the episodes of every
  job it deletes, so that no episode refers to a deleted job. The schema declares
  \<open>ON DELETE CASCADE\<close>, but the connection of \<open>delete_all_jobs_except_running\<close> never
  enables foreign keys, so SQLite deletes from \<open>jobs\<close> only: of three jobs with one
  episode each, the two that are not running are deleted, the counts are \<open>(2, 1)\<close>, the
  running job stays, and all three episodes stay, two of them for jobs that are gone.
  (\<open>sql_delete_jobs_cascade\<close> above: on a connection that enforces foreign keys the
  same statement leaves no such episode.)
\<close>

theorem purge_leaves_orphaned_episodes:
  "map job_id (jobs three_jobs) = [1, 2, 3]
   \<and> map status (jobs three_jobs) =
       [TEXT JobStatus_RUNNING, TEXT JobStatus_SUCCESS, TEXT JobStatus_CANCELED]
   \<and> map e_job_id (episodes three_jobs) = [1, 2, 3]
   \<and> fst (delete_all_jobs_except_running three_jobs) = Inr (2, 1)
   \<and> map job_id (jobs (snd (delete_all_jobs_except_running three_jobs))) = [1]
   \<and> map e_job_id (episodes (snd (delete_all_jobs_except_running three_jobs))) = [1, 2, 3]"
proof -
  note st = three_jobs_rows(5)
  have f: "map job_id (filter (\<lambda>j. P (status j)) (jobs three_jobs))
      = map fst (filter (\<lambda>p. P (snd p)) (map (\<lambda>j. (job_id j, status j)) (jobs three_jobs)))"
    for P
    by (simp add: filter_map comp_def)
  have l: "length (filter (\<lambda>j. P (status j)) (jobs three_jobs))
      = length (filter (\<lambda>p. P (snd p)) (map (\<lambda>j. (job_id j, status j)) (jobs three_jobs)))"
    for P
    using f [of P] by (metis length_map)
  have "fst (delete_all_jobs_except_running three_jobs) = Inr (2, 1)"
    unfolding purge_result l [of "\<lambda>v. sql_ne v JobStatus_RUNNING"]
      l [of "\<lambda>v. sql_eq v JobStatus_RUNNING"] st
    by (simp add: sql_ne_def sql_eq_def status_defs)
  moreover have "map job_id (jobs (snd (delete_all_jobs_except_running three_jobs))) = [1]"
    unfolding purge_jobs f [of "\<lambda>v. \<not> sql_ne v JobStatus_RUNNING"] st
    by (simp add: sql_ne_def status_defs)
  ultimately show ?thesis
    by (simp add: three_jobs_rows purge_keeps_episodes)
qed



subsection \<open>The generic update of a job\<close>

text \<open>
  Claim C9. An empty field map returns at once and leaves the store as it is. A field
  map with a name outside \<open>VALID_COLUMNS\<close> raises \<open>ValueError\<close> with the offending names
  and leaves the store as it is, also when other names of the map are valid: the
  method returns before it reaches its statement.
\<close>

theorem update_job_rejects_unknown_columns:
  "update_job jid [] s = (Inr (), s)
   \<and> ((\<exists>k \<in> set (map fst kwargs). k \<notin> set VALID_COLUMNS) \<longrightarrow>
        update_job jid kwargs s =
          (Inl (ValueError (filter (\<lambda>k. k \<notin> set VALID_COLUMNS) (map fst kwargs))), s))"
proof (intro conjI impI)
  show "update_job jid [] s = (Inr (), s)" by (simp add: update_job_def)
next
  assume a: "\<exists>k \<in> set (map fst kwargs). k \<notin> set VALID_COLUMNS"
  then have "filter (\<lambda>k. k \<notin> set VALID_COLUMNS) (map fst kwargs) \<noteq> []"
    by (simp add: filter_empty_conv)
  moreover from a have "kwargs \<noteq> []" by auto
  ultimately show "update_job jid kwargs s =
          (Inl (ValueError (filter (\<lambda>k. k \<notin> set VALID_COLUMNS) (map fst kwargs))), s)"
    by (simp add: update_job_def Let_def)
qed

theorem update_job_rejects_unknown_columns_witness:
  "(\<exists>k \<in> set (map fst [(''status'', TEXT ''running''), (''bogus_field'', INTEGER 1)]).
       k \<notin> set VALID_COLUMNS)
   \<and> update_job 1 [(''status'', TEXT ''running''), (''bogus_field'', INTEGER 1)] one_queued
       = (Inl (ValueError [''bogus_field'']), one_queued)
   \<and> update_job 1 [] one_queued = (Inr (), one_queued)"
proof -
  have h: "\<exists>k \<in> set (map fst [(''status'', TEXT ''running''), (''bogus_field'', INTEGER 1)]).
       k \<notin> set VALID_COLUMNS"
    by (simp add: VALID_COLUMNS_def)
  have f: "filter (\<lambda>k. k \<notin> set VALID_COLUMNS)
             (map fst [(''status'', TEXT ''running''), (''bogus_field'', INTEGER 1)])
           = [''bogus_field'']"
    by (simp add: VALID_COLUMNS_def)
  from h update_job_rejects_unknown_columns
         [of 1 one_queued "[(''status'', TEXT ''running''), (''bogus_field'', INTEGER 1)]"]
  show ?thesis unfolding f by blast
qed


subsection \<open>Calls on an id that names no row\<close>








end
